theory Spec2Isabelle
  imports Main "HOL-Library.Sublist" "HOL-Library.AList" "HOL-Library.Word"
begin

section \<open>Strings and byte arrays\<close>

text \<open>
  \<open>QByteArray\<close> and \<open>QString\<close> are both lists of 8-bit characters: the model covers
  requests written in ASCII, where a byte and a character coincide and UTF-8 decoding
  changes nothing. Positions and lengths are C++ \<open>int\<close>s in the source and \<open>int\<close>s here.
\<close>

type_synonym QByteArray = string
type_synonym QString = string

definition CRLF :: string where
  "CRLF = [CHR 0x0D, CHR 0x0A]"

definition QString_fromUtf8 :: "QByteArray \<Rightarrow> QString" where
  \<comment> \<open>The constructor \<open>QString(const QByteArray &)\<close>: stops copying at the first 0 character.\<close>
  "QString_fromUtf8 ba = takeWhile (\<lambda>c. c \<noteq> CHR 0x00) ba"

definition toUtf8 :: "QString \<Rightarrow> QByteArray" where
  "toUtf8 s = s"

fun QString_split :: "QString \<Rightarrow> QString \<Rightarrow> QString list" where
  \<comment> \<open>\<open>QString::split(sep)\<close> for a non-empty separator, empty parts kept: the text is cut at
      every occurrence of \<open>sep\<close>, found from left to right, and each search resumes behind
      the occurrence before it. The source only splits on \<open>CRLF\<close> and on one space.\<close>
  "QString_split sep [] = [[]]"
| "QString_split sep (c # cs) =
     (if prefix sep (c # cs) then [] # QString_split sep (drop (length sep - 1) cs)
      else (case QString_split sep cs of
              [] \<Rightarrow> [[c]]
            | l # ls \<Rightarrow> (c # l) # ls))"

fun find_first :: "string \<Rightarrow> string \<Rightarrow> nat option" where
  "find_first pat [] = (if pat = [] then Some 0 else None)"
| "find_first pat (c # cs) =
     (if prefix pat (c # cs) then Some 0 else map_option Suc (find_first pat cs))"

definition indexOf :: "string \<Rightarrow> string \<Rightarrow> int" where
  \<comment> \<open>\<open>indexOf\<close> of \<open>QString\<close> and \<open>QByteArray\<close>: the position of the first occurrence, or -1.\<close>
  "indexOf s pat = (case find_first pat s of None \<Rightarrow> - 1 | Some n \<Rightarrow> int n)"

definition left :: "string \<Rightarrow> int \<Rightarrow> string" where
  \<comment> \<open>The first \<open>n\<close> characters; the whole text when \<open>n\<close> is negative or not less than the size.\<close>
  "left s n = (if n < 0 \<or> n \<ge> int (length s) then s else take (nat n) s)"

definition mid :: "string \<Rightarrow> int \<Rightarrow> string" where
  \<comment> \<open>The text from position \<open>pos\<close> on; empty when \<open>pos\<close> is behind the end.\<close>
  "mid s pos = drop (nat pos) s"

definition startsWith :: "string \<Rightarrow> string \<Rightarrow> bool" where
  "startsWith s p = prefix p s"

definition isSpace :: "char \<Rightarrow> bool" where
  \<comment> \<open>\<open>QChar::isSpace\<close> on ASCII: tab, line feed, vertical tab, form feed, carriage return, space.\<close>
  "isSpace c = (let n = (of_char c :: nat) in (9 \<le> n \<and> n \<le> 13) \<or> n = 32)"

definition trimmed :: "QString \<Rightarrow> QString" where
  "trimmed s = rev (dropWhile isSpace (rev (dropWhile isSpace s)))"

definition toLower_char :: "char \<Rightarrow> char" where
  "toLower_char c =
     (case map_of (zip ''ABCDEFGHIJKLMNOPQRSTUVWXYZ'' ''abcdefghijklmnopqrstuvwxyz'') c of
        None \<Rightarrow> c
      | Some l \<Rightarrow> l)"

definition toLower :: "QString \<Rightarrow> QString" where
  "toLower s = map toLower_char s"

fun number_digits :: "nat \<Rightarrow> string" where
  "number_digits n =
     (if n < 10 then [''0123456789'' ! n]
      else number_digits (n div 10) @ [''0123456789'' ! (n mod 10)])"

declare number_digits.simps [simp del]

definition QString_number :: "int \<Rightarrow> QString" where
  \<comment> \<open>\<open>QString::number\<close> and \<open>QString::arg\<close> of an integer: base 10, a minus sign when negative.\<close>
  "QString_number i = (if i < 0 then CHR ''-'' # number_digits (nat (- i)) else number_digits (nat i))"

fun digits_value :: "string \<Rightarrow> nat \<Rightarrow> nat" where
  \<comment> \<open>Reading a decimal numeral back, most significant digit first.\<close>
  "digits_value [] acc = acc"
| "digits_value (c # cs) acc = digits_value cs (10 * acc + (of_char c - 48))"


section \<open>JSON values\<close>

text \<open>
  A \<open>QJsonObject\<close> maps member names to values. It is an association list here, written
  through \<open>operator[]\<close> (an existing member is replaced, a new one is added). A number is
  kept as the integer it is made from. Serialising and parsing (\<open>QJsonDocument::toJson\<close>,
  \<open>QJsonDocument::fromJson\<close>) are library code and are parameters of the model.
\<close>

datatype QJsonValue =
    Bool bool
  | Number int
  | String QString
  | Object "(QString \<times> QJsonValue) list"

type_synonym QJsonObject = "(QString \<times> QJsonValue) list"

datatype QJsonDocument = Null_document | Array_document "QJsonValue list" | Object_document QJsonObject

record QJson =
  toJson :: "QJsonObject \<Rightarrow> QByteArray"
  fromJson :: "QByteArray \<Rightarrow> QJsonDocument"

definition set_member :: "QJsonObject \<Rightarrow> QString \<Rightarrow> QJsonValue \<Rightarrow> QJsonObject" where
  \<comment> \<open>\<open>object[key] = value\<close>\<close>
  "set_member obj key v = AList.update key v obj"

definition CreateSuccessResponse :: "QJsonObject \<Rightarrow> QJsonObject" where
  "CreateSuccessResponse data =
     (let response = [];
          response = set_member response ''success'' (Bool True);
          response = set_member response ''data'' (Object data)
      in response)"

definition CreateErrorResponse :: "QString \<Rightarrow> QJsonObject" where
  "CreateErrorResponse message =
     (let response = [];
          response = set_member response ''success'' (Bool False);
          response = set_member response ''error'' (String message)
      in response)"


section \<open>The recording page\<close>

text \<open>
  Modelled from the spec: the class \<open>PageRecord\<close>, the controller behind the server, is
  missing from the sources. The controller contract of the spec gives its five queries
  (two flags, the file name, the file size as an unsigned 64-bit count of bytes, the
  elapsed time as an integer of milliseconds); they are the fields of the record. Its
  slots are commands: a call is appended to the trace \<open>invoked\<close>. What a command does to
  the answers of later queries belongs to \<open>PageRecord\<close> and is not modelled; every handler
  reads the queries before it calls its one slot.
\<close>

datatype command =
    OnRecordStart
  | OnRecordStartPause
  | OnRecordPause
  | OnRecordCancel bool
  | OnRecordSave bool

record PageRecord =
  IsRecording :: bool
  IsPaused :: bool
  GetCurrentFileName :: QString
  GetCurrentFileSize :: "64 word"
  GetTotalTime :: int
  invoked :: "command list"

definition invoke :: "command \<Rightarrow> PageRecord \<Rightarrow> PageRecord" where
  "invoke cmd p = p\<lparr>invoked := invoked p @ [cmd]\<rparr>"


section \<open>API handlers\<close>

text \<open>
  \<open>m_page_record\<close> is a pointer: \<open>None\<close> is the null pointer. A handler returns its JSON
  object together with the recording page after the call.
\<close>

definition HandleAPIStatus :: "PageRecord option \<Rightarrow> QJsonObject \<times> PageRecord option" where
  "HandleAPIStatus m_page_record =
     (let data = [];
          data = (case m_page_record of
                    None \<Rightarrow> data
                  | Some p \<Rightarrow>
                      (let data = set_member data ''is_recording'' (Bool (IsRecording p));
                           data = set_member data ''is_paused'' (Bool (IsPaused p));
                           data = set_member data ''file_name'' (String (GetCurrentFileName p));
                           data = set_member data ''file_size''
                                    (String (QString_number (uint (GetCurrentFileSize p))));
                           data = set_member data ''total_time'' (Number (GetTotalTime p))
                       in data))
      in (CreateSuccessResponse data, m_page_record))"

definition HandleAPIStartRecording :: "PageRecord option \<Rightarrow> QJsonObject \<times> PageRecord option" where
  "HandleAPIStartRecording m_page_record =
     (case m_page_record of
        None \<Rightarrow> (CreateErrorResponse ''No access to recording page'', m_page_record)
      | Some p \<Rightarrow>
          if IsPaused p then
            (CreateSuccessResponse [(''action'', String ''resumed'')],
             Some (invoke OnRecordStartPause p))
          else if \<not> IsRecording p then
            (CreateSuccessResponse [(''action'', String ''started'')],
             Some (invoke OnRecordStart p))
          else
            (CreateErrorResponse ''Already recording'', m_page_record))"

definition HandleAPIPauseRecording :: "PageRecord option \<Rightarrow> QJsonObject \<times> PageRecord option" where
  "HandleAPIPauseRecording m_page_record =
     (case m_page_record of
        None \<Rightarrow> (CreateErrorResponse ''No access to recording page'', m_page_record)
      | Some p \<Rightarrow>
          if IsRecording p \<and> \<not> IsPaused p then
            (CreateSuccessResponse [], Some (invoke OnRecordPause p))
          else
            (CreateErrorResponse ''Not recording or already paused'', m_page_record))"

definition HandleAPICancelRecording :: "PageRecord option \<Rightarrow> QJsonObject \<times> PageRecord option" where
  "HandleAPICancelRecording m_page_record =
     (case m_page_record of
        None \<Rightarrow> (CreateErrorResponse ''No access to recording page'', m_page_record)
      | Some p \<Rightarrow>
          if IsRecording p then
            (CreateSuccessResponse [], Some (invoke (OnRecordCancel False) p))
          else
            (CreateErrorResponse ''Not recording'', m_page_record))"

definition HandleAPISaveRecording :: "PageRecord option \<Rightarrow> QJsonObject \<times> PageRecord option" where
  "HandleAPISaveRecording m_page_record =
     (case m_page_record of
        None \<Rightarrow> (CreateErrorResponse ''No access to recording page'', m_page_record)
      | Some p \<Rightarrow>
          if IsRecording p then
            (CreateSuccessResponse [], Some (invoke (OnRecordSave False) p))
          else
            (CreateErrorResponse ''Not recording'', m_page_record))"


section \<open>Writing a response\<close>

text \<open>
  A socket is open or closed and remembers every block of bytes written to it.
\<close>

record QTcpSocket =
  isOpen :: bool
  written :: "QByteArray list"

definition statusText :: "int \<Rightarrow> QString" where
  "statusText status =
     (if status = 200 then ''OK''
      else if status = 400 then ''Bad Request''
      else if status = 404 then ''Not Found''
      else if status = 500 then ''Internal Server Error''
      else ''Unknown'')"

definition SendResponse :: "QTcpSocket \<Rightarrow> int \<Rightarrow> QByteArray \<Rightarrow> QByteArray \<Rightarrow> QTcpSocket" where
  "SendResponse socket status content_type content =
     (let response = [];
          response = response @ toUtf8 (''HTTP/1.1 '' @ QString_number status @ '' ''
                                          @ statusText status @ CRLF);
          response = response @ toUtf8 (''Content-Type: '' @ QString_fromUtf8 content_type @ CRLF);
          response = response @ toUtf8 (''Content-Length: ''
                                          @ QString_number (int (length content)) @ CRLF);
          response = response @ ''Connection: close'' @ CRLF;
          response = response @ ''Access-Control-Allow-Origin: *'' @ CRLF;
          response = response @ CRLF;
          response = response @ content
      in socket\<lparr>written := written socket @ [response], isOpen := False\<rparr>)"

definition SendJsonResponse :: "QJson \<Rightarrow> QTcpSocket \<Rightarrow> int \<Rightarrow> QJsonObject \<Rightarrow> QTcpSocket" where
  "SendJsonResponse qt socket status json =
     (let content = toJson qt json
      in SendResponse socket status ''application/json'' content)"


section \<open>Parsing and dispatching a request\<close>

fun parse_headers :: "QString list \<Rightarrow> (QString \<rightharpoonup> QString) \<Rightarrow> (QString \<rightharpoonup> QString)" where
  \<comment> \<open>The loop over \<open>lines[1]\<close>, \<open>lines[2]\<close>, ...: called on the lines behind the request
      line, with the map built so far.\<close>
  "parse_headers [] headers = headers"
| "parse_headers (line # rest) headers =
     (if line = [] then headers
      else
        (let colonPos = indexOf line '':''
         in if colonPos > 0 then
              (let key = toLower (trimmed (left line colonPos));
                   val = trimmed (mid line (colonPos + 1))
               in parse_headers rest (headers(key \<mapsto> val)))
            else parse_headers rest headers))"

definition index_page :: QByteArray where
  "index_page =
     ''SimpleScreenRecorder API Server'' @ [CHR 0x0A, CHR 0x0A]
     @ ''Available endpoints:'' @ [CHR 0x0A]
     @ ''- /start - Start recording'' @ [CHR 0x0A]
     @ ''- /pause - Pause recording'' @ [CHR 0x0A]
     @ ''- /save - Save recording'' @ [CHR 0x0A]
     @ ''- /cancel - Cancel recording'' @ [CHR 0x0A]
     @ ''- /status - Get status information'' @ [CHR 0x0A]"

definition HandleAPI ::
  "QJson \<Rightarrow> PageRecord option \<Rightarrow> QTcpSocket \<Rightarrow> QString \<Rightarrow> QJsonObject
     \<Rightarrow> PageRecord option \<times> QTcpSocket" where
  "HandleAPI qt page socket path json =
     (let (response, page') =
            (if path = ''status'' then HandleAPIStatus page
             else if path = ''record/start'' then HandleAPIStartRecording page
             else if path = ''record/pause'' then HandleAPIPauseRecording page
             else if path = ''record/cancel'' then HandleAPICancelRecording page
             else if path = ''record/save'' then HandleAPISaveRecording page
             else (CreateErrorResponse ''Unknown API endpoint'', page))
      in (page', SendJsonResponse qt socket 200 response))"

text \<open>
  \<open>HandleRequest\<close> gets the socket as a pointer (\<open>None\<close> is null) and returns the recording
  page and the socket as it leaves them. Nothing called in its \<open>try\<close> block throws (Qt
  reports no errors by exception, and \<open>lines[0]\<close>, \<open>requestLine[0]\<close>, \<open>requestLine[1]\<close> are
  read behind the checks that they exist), so the two \<open>catch\<close> blocks have no branch here.
  The function is written in two parts: \<open>dispatch\<close> is its chain of comparisons on the
  path, from the first comparison to the final 404; \<open>HandleRequest\<close> is everything before.
\<close>

definition dispatch ::
  "QJson \<Rightarrow> PageRecord option \<Rightarrow> QTcpSocket \<Rightarrow> QString \<Rightarrow> QByteArray
     \<Rightarrow> PageRecord option \<times> QTcpSocket option" where
  "dispatch qt page sock path body =
     (if path = ''start'' \<or> path = ''record/start'' then
        (let (response, page') = HandleAPIStartRecording page
         in (page', Some (SendJsonResponse qt sock 200 response)))
      else if path = ''pause'' \<or> path = ''record/pause'' then
        (let (response, page') = HandleAPIPauseRecording page
         in (page', Some (SendJsonResponse qt sock 200 response)))
      else if path = ''save'' \<or> path = ''record/save'' then
        (let (response, page') = HandleAPISaveRecording page
         in (page', Some (SendJsonResponse qt sock 200 response)))
      else if path = ''cancel'' \<or> path = ''record/cancel'' then
        (let (response, page') = HandleAPICancelRecording page
         in (page', Some (SendJsonResponse qt sock 200 response)))
      else if path = ''status'' \<or> path = ''record/status'' then
        (let (response, page') = HandleAPIStatus page
         in (page', Some (SendJsonResponse qt sock 200 response)))
      else if path = ''api/status'' \<or> path = ''api/record/status'' then
        (let (response, page') = HandleAPIStatus page
         in (page', Some (SendJsonResponse qt sock 200 response)))
      else if path = [] \<or> path = ''index.html'' \<or> path = ''index'' then
        (page, Some (SendResponse sock 200 ''text/plain'' index_page))
      else if startsWith path ''api/'' then
        (let apiPath = mid path 4;
             jsonRequest =
               (if body \<noteq> [] then
                  (case fromJson qt body of
                     Object_document obj \<Rightarrow> obj
                   | _ \<Rightarrow> [])
                else []);
             (page', sock') = HandleAPI qt page sock apiPath jsonRequest
         in (page', Some sock'))
      else
        (page, Some (SendResponse sock 404 ''text/plain'' ''Not Found'')))"

definition HandleRequest ::
  "QJson \<Rightarrow> PageRecord option \<Rightarrow> QTcpSocket option \<Rightarrow> QByteArray
     \<Rightarrow> PageRecord option \<times> QTcpSocket option" where
  "HandleRequest qt page socket request =
     (case socket of
        None \<Rightarrow> (page, socket)
      | Some sock \<Rightarrow>
          if \<not> isOpen sock then (page, socket)
          else if request = [] then
            (page, Some (SendResponse sock 400 ''text/plain'' ''Bad Request''))
          else
            (let lines = QString_split CRLF (QString_fromUtf8 request)
             in if lines = [] then
                  (page, Some (SendResponse sock 400 ''text/plain'' ''Bad Request''))
                else
                  (let requestLine = QString_split '' '' (lines ! 0)
                   in if length requestLine < 3 then
                        (page, Some (SendResponse sock 400 ''text/plain'' ''Bad Request''))
                      else
                        (let method = requestLine ! 0;
                             path = requestLine ! 1;
                             headers = parse_headers (drop 1 lines) Map.empty;
                             headerEnd = indexOf request (CRLF @ CRLF);
                             body = (if headerEnd \<ge> 0 \<and> headerEnd + 4 < int (length request)
                                     then mid request (headerEnd + 4) else []);
                             path = (if startsWith path ''/'' then mid path 1 else path)
                         in dispatch qt page sock path body))))"

text \<open>
  The request as \<open>HandleRequest\<close> reads it, for stating what it does with a request:
  the tokens of the first line, the path it dispatches on, and the body.
\<close>

definition request_line :: "QByteArray \<Rightarrow> QString list" where
  "request_line request = QString_split '' '' (QString_split CRLF (QString_fromUtf8 request) ! 0)"

definition normalized_path :: "QByteArray \<Rightarrow> QString" where
  "normalized_path request =
     (let path = request_line request ! 1
      in if startsWith path ''/'' then mid path 1 else path)"

definition request_body :: "QByteArray \<Rightarrow> QByteArray" where
  "request_body request =
     (let headerEnd = indexOf request (CRLF @ CRLF)
      in if headerEnd \<ge> 0 \<and> headerEnd + 4 < int (length request)
         then mid request (headerEnd + 4) else [])"


section \<open>The server\<close>

text \<open>
  Sockets are named by their addresses; 0 is the null pointer. A \<open>QTcpServer\<close> listens or
  not and queues the connections nobody has fetched yet; closing it stops listening and
  drops that queue. Sockets already fetched with \<open>nextPendingConnection\<close> are objects of
  their own and are not touched by \<open>close\<close>.
\<close>

type_synonym socket_ptr = nat

record QTcpServer =
  isListening :: bool
  pendingConnections :: "socket_ptr list"

definition QTcpServer_close :: "QTcpServer \<Rightarrow> QTcpServer" where
  "QTcpServer_close srv = srv\<lparr>isListening := False, pendingConnections := []\<rparr>"

definition nextPendingConnection :: "QTcpServer \<Rightarrow> socket_ptr \<times> QTcpServer" where
  "nextPendingConnection srv =
     (case pendingConnections srv of
        [] \<Rightarrow> (0, srv)
      | s # rest \<Rightarrow> (s, srv\<lparr>pendingConnections := rest\<rparr>))"

definition incoming :: "socket_ptr \<Rightarrow> QTcpServer \<Rightarrow> QTcpServer" where
  \<comment> \<open>A client connects: the event that precedes the \<open>newConnection\<close> signal.\<close>
  "incoming s srv =
     (if isListening srv then srv\<lparr>pendingConnections := pendingConnections srv @ [s]\<rparr> else srv)"

record HTTPServer =
  m_server :: QTcpServer
  m_page_record :: "PageRecord option"
  m_request_buffers :: "socket_ptr \<rightharpoonup> QByteArray"

datatype error = runtime_error string

definition HTTPServer_new :: "PageRecord option \<Rightarrow> error + HTTPServer" where
  \<comment> \<open>The constructor; allocating the \<open>QTcpServer\<close> and connecting its signal do not fail.\<close>
  "HTTPServer_new page_record =
     (case page_record of
        None \<Rightarrow> Inl (runtime_error ''PageRecord is NULL'')
      | Some p \<Rightarrow>
          Inr \<lparr>m_server = \<lparr>isListening = False, pendingConnections = []\<rparr>,
               m_page_record = page_record,
               m_request_buffers = Map.empty\<rparr>)"

definition Start :: "(int \<Rightarrow> bool) \<Rightarrow> HTTPServer \<Rightarrow> int \<Rightarrow> bool \<times> HTTPServer" where
  \<comment> \<open>\<open>listen\<close>: whether the system lets the server listen on a port.\<close>
  "Start listen this port =
     (if \<not> listen port then (False, this)
      else (True, this\<lparr>m_server := (m_server this)\<lparr>isListening := True\<rparr>\<rparr>))"

definition Stop :: "HTTPServer \<Rightarrow> HTTPServer" where
  "Stop this =
     (if isListening (m_server this) then this\<lparr>m_server := QTcpServer_close (m_server this)\<rparr>
      else this)"

definition OnNewConnection :: "HTTPServer \<Rightarrow> HTTPServer" where
  "OnNewConnection this =
     (let (socket, srv) = nextPendingConnection (m_server this)
      in this\<lparr>m_server := srv, m_request_buffers := (m_request_buffers this)(socket \<mapsto> [])\<rparr>)"

definition client_connects :: "socket_ptr \<Rightarrow> HTTPServer \<Rightarrow> HTTPServer" where
  \<comment> \<open>A client connects and the \<open>newConnection\<close> signal runs its slot.\<close>
  "client_connects s this = OnNewConnection (this\<lparr>m_server := incoming s (m_server this)\<rparr>)"


section \<open>Values for the examples\<close>

definition plain_json :: QJson where
  \<comment> \<open>A stand-in for the JSON library: member names only, and no document parsed.\<close>
  "plain_json = \<lparr>toJson = (\<lambda>obj. concat (map fst obj)), fromJson = (\<lambda>b. Null_document)\<rparr>"

definition idle_page :: PageRecord where
  "idle_page = \<lparr>IsRecording = False, IsPaused = False, GetCurrentFileName = [],
                 GetCurrentFileSize = 0, GetTotalTime = 0, invoked = []\<rparr>"

definition recording_page :: PageRecord where
  "recording_page = \<lparr>IsRecording = True, IsPaused = False, GetCurrentFileName = ''out.mkv'',
                      GetCurrentFileSize = 1048576, GetTotalTime = 12345, invoked = []\<rparr>"

definition paused_page :: PageRecord where
  "paused_page = \<lparr>IsRecording = True, IsPaused = True, GetCurrentFileName = ''out.mkv'',
                   GetCurrentFileSize = 1048576, GetTotalTime = 12345, invoked = []\<rparr>"

definition fresh_socket :: QTcpSocket where
  "fresh_socket = \<lparr>isOpen = True, written = []\<rparr>"

definition stopped_server :: HTTPServer where
  "stopped_server = \<lparr>m_server = \<lparr>isListening = False, pendingConnections = []\<rparr>,
                      m_page_record = Some idle_page,
                      m_request_buffers = Map.empty\<rparr>"

definition connected_server :: HTTPServer where
  \<comment> \<open>A listening server with one live connection, on the socket at address 7.\<close>
  "connected_server = \<lparr>m_server = \<lparr>isListening = True, pendingConnections = []\<rparr>,
                        m_page_record = Some idle_page,
                        m_request_buffers = [7 \<mapsto> []]\<rparr>"

definition start_request :: QByteArray where
  "start_request = ''POST /start HTTP/1.1'' @ CRLF @ CRLF"

definition pause_request :: QByteArray where
  "pause_request = ''GET /pause HTTP/1.1'' @ CRLF @ CRLF"

definition save_request :: QByteArray where
  "save_request = ''POST /api/record/save HTTP/1.1'' @ CRLF @ ''Content-Type: application/json''
                    @ CRLF @ CRLF @ ''{}''"

definition cancel_request :: QByteArray where
  "cancel_request = ''GET /cancel HTTP/1.1'' @ CRLF @ CRLF"

definition status_request :: QByteArray where
  "status_request = ''GET /status HTTP/1.1'' @ CRLF @ CRLF"

definition favicon_request :: QByteArray where
  "favicon_request = ''GET /favicon.ico HTTP/1.1'' @ CRLF @ CRLF"

definition legacy_request :: QByteArray where
  "legacy_request = ''POST /api/record/stop HTTP/1.1'' @ CRLF @ CRLF"

definition garbage_request :: QByteArray where
  "garbage_request = ''GARBAGE'' @ CRLF @ CRLF"


section \<open>Helper lemmas\<close>

lemma QString_split_not_Nil: "QString_split sep s \<noteq> []"
  by (induction sep s rule: QString_split.induct) (auto split: list.splits)

lemma request_line_parse:
  assumes "3 \<le> length (request_line request)"
  shows "request \<noteq> []"
  using assms by (auto simp: request_line_def QString_fromUtf8_def)

lemma digit_value: "n < 10 \<Longrightarrow> of_char (''0123456789'' ! n) - 48 = (n::nat)"
proof -
  assume "n < 10"
  then have "n \<in> {0, 1, 2, 3, 4, 5, 6, 7, 8, 9}" by auto
  then show ?thesis by auto
qed

lemma digits_value_append: "digits_value (xs @ ys) acc = digits_value ys (digits_value xs acc)"
  by (induction xs arbitrary: acc) auto

lemma digits_value_number_digits: "digits_value (number_digits n) 0 = n"
proof (induction n rule: number_digits.induct)
  case (1 n)
  show ?case
  proof (cases "n < 10")
    case True
    then show ?thesis by (simp add: number_digits.simps[of n] digit_value)
  next
    case False
    have "n mod 10 < 10" by simp
    then have d: "of_char (''0123456789'' ! (n mod 10)) - 48 = n mod 10"
      by (rule digit_value)
    from False 1 have "digits_value (number_digits (n div 10)) 0 = n div 10" by simp
    with False d show ?thesis
      by (simp add: number_digits.simps[of n] digits_value_append)
  qed
qed

lemma HandleRequest_parsed:
  assumes "isOpen sock" and "3 \<le> length (request_line request)"
  shows "HandleRequest qt page (Some sock) request =
           dispatch qt page sock (normalized_path request) (request_body request)"
  using assms request_line_parse[OF assms(2)]
  by (simp add: HandleRequest_def request_line_def normalized_path_def request_body_def Let_def
      QString_split_not_Nil)

lemma QString_number_status:
  "QString_number 200 = ''200''" "QString_number 400 = ''400''" "QString_number 404 = ''404''"
  "QString_number 9 = ''9''" "QString_number 11 = ''11''"
  by (simp_all add: QString_number_def number_digits.simps)

lemma dispatch_pause:
  assumes "path \<in> {''pause'', ''record/pause'', ''api/record/pause''}"
  shows "dispatch qt page sock path body =
           (let (response, page') = HandleAPIPauseRecording page
            in (page', Some (SendJsonResponse qt sock 200 response)))"
  using assms
  by (elim insertE emptyE)
    (simp_all add: dispatch_def HandleAPI_def startsWith_def mid_def split: prod.splits)

lemma dispatch_save:
  assumes "path \<in> {''save'', ''record/save'', ''api/record/save''}"
  shows "dispatch qt page sock path body =
           (let (response, page') = HandleAPISaveRecording page
            in (page', Some (SendJsonResponse qt sock 200 response)))"
  using assms
  by (elim insertE emptyE)
    (simp_all add: dispatch_def HandleAPI_def startsWith_def mid_def split: prod.splits)

lemma dispatch_cancel:
  assumes "path \<in> {''cancel'', ''record/cancel'', ''api/record/cancel''}"
  shows "dispatch qt page sock path body =
           (let (response, page') = HandleAPICancelRecording page
            in (page', Some (SendJsonResponse qt sock 200 response)))"
  using assms
  by (elim insertE emptyE)
    (simp_all add: dispatch_def HandleAPI_def startsWith_def mid_def split: prod.splits)

lemma dispatch_status:
  assumes "path \<in> {''status'', ''record/status'', ''api/status'', ''api/record/status''}"
  shows "dispatch qt page sock path body =
           (let (response, page') = HandleAPIStatus page
            in (page', Some (SendJsonResponse qt sock 200 response)))"
  using assms
  by (elim insertE emptyE) (simp_all add: dispatch_def)

lemma success_envelope:
  "CreateSuccessResponse data = [(''success'', Bool True), (''data'', Object data)]"
  by (simp add: CreateSuccessResponse_def set_member_def)

lemma error_envelope:
  "CreateErrorResponse message = [(''success'', Bool False), (''error'', String message)]"
  by (simp add: CreateErrorResponse_def set_member_def)

lemma QString_number_uint: "digits_value (QString_number (uint w)) 0 = unat w"
  by (simp add: QString_number_def digits_value_number_digits)

lemma example_requests:
  "request_line start_request = [''POST'', ''/start'', ''HTTP/1.1'']"
  "normalized_path start_request = ''start''"
  "request_line pause_request = [''GET'', ''/pause'', ''HTTP/1.1'']"
  "normalized_path pause_request = ''pause''"
  "request_line save_request = [''POST'', ''/api/record/save'', ''HTTP/1.1'']"
  "normalized_path save_request = ''api/record/save''"
  "request_line cancel_request = [''GET'', ''/cancel'', ''HTTP/1.1'']"
  "normalized_path cancel_request = ''cancel''"
  "request_line status_request = [''GET'', ''/status'', ''HTTP/1.1'']"
  "normalized_path status_request = ''status''"
  "request_line favicon_request = [''GET'', ''/favicon.ico'', ''HTTP/1.1'']"
  "normalized_path favicon_request = ''favicon.ico''"
  "request_line legacy_request = [''POST'', ''/api/record/stop'', ''HTTP/1.1'']"
  "normalized_path legacy_request = ''api/record/stop''"
  by (simp_all add: normalized_path_def request_line_def QString_fromUtf8_def CRLF_def
      startsWith_def mid_def start_request_def pause_request_def save_request_def
      cancel_request_def status_request_def favicon_request_def legacy_request_def)

lemma split_char_length: "length (QString_split [c] s) = Suc (count_list s c)"
  by (induction s) (auto split: list.splits simp: QString_split_not_Nil)

lemma count_list_prefix: "prefix xs ys \<Longrightarrow> count_list xs c \<le> count_list ys c"
  by (auto simp: prefix_def)

lemma first_line_Cons:
  "\<not> prefix CRLF (c # cs) \<Longrightarrow> QString_split CRLF (c # cs) ! 0 = c # QString_split CRLF cs ! 0"
  by (cases "QString_split CRLF cs") (auto simp: QString_split_not_Nil)

lemma first_line_truncated:
  "prefix (QString_split CRLF (QString_fromUtf8 s) ! 0) (QString_split CRLF s ! 0)"
proof (induction s)
  case Nil
  show ?case by (simp add: QString_fromUtf8_def)
next
  case (Cons c cs)
  show ?case
  proof (cases "c = CHR 0x00")
    case True
    then show ?thesis by (simp add: QString_fromUtf8_def)
  next
    case nz: False
    show ?thesis
    proof (cases "prefix CRLF (c # cs)")
      case True
      then obtain cs' where "c = CHR 0x0D" "cs = CHR 0x0A # cs'"
        by (cases cs) (auto simp: CRLF_def)
      then show ?thesis by (simp add: QString_fromUtf8_def CRLF_def)
    next
      case False
      have np: "\<not> prefix CRLF (c # QString_fromUtf8 cs)"
        using False by (cases cs) (auto simp: CRLF_def QString_fromUtf8_def split: if_splits)
      have eq: "QString_fromUtf8 (c # cs) = c # QString_fromUtf8 cs"
        using nz by (simp add: QString_fromUtf8_def)
      have a: "QString_split CRLF (c # cs) ! 0 = c # QString_split CRLF cs ! 0"
        by (rule first_line_Cons[OF False])
      have b: "QString_split CRLF (QString_fromUtf8 (c # cs)) ! 0
                 = c # QString_split CRLF (QString_fromUtf8 cs) ! 0"
        unfolding eq by (rule first_line_Cons[OF np])
      show ?thesis
        unfolding a b using Cons.IH by simp
    qed
  qed
qed

lemma request_line_tokens:
  "length (request_line request) \<le> length (QString_split '' '' (QString_split CRLF request ! 0))"
  unfolding request_line_def split_char_length
  using count_list_prefix[OF first_line_truncated] by simp

lemma connected_server_reachable:
  "HTTPServer_new (Some idle_page) = Inr stopped_server"
  "client_connects 7 (snd (Start (\<lambda>port. True) stopped_server 8080)) = connected_server"
  by (simp_all add: HTTPServer_new_def stopped_server_def Start_def client_connects_def
      OnNewConnection_def incoming_def nextPendingConnection_def connected_server_def)

lemma find_first_absent: "c \<notin> set s \<Longrightarrow> find_first [c] s = None"
  by (induction s) auto

lemma find_first_present: "c \<notin> set K \<Longrightarrow> find_first [c] (K @ c # V) = Some (length K)"
  by (induction K) auto

lemma indexOf_absent: "c \<notin> set s \<Longrightarrow> indexOf s [c] = - 1"
  by (simp add: indexOf_def find_first_absent)

lemma indexOf_present: "c \<notin> set K \<Longrightarrow> indexOf (K @ c # V) [c] = int (length K)"
  by (simp add: indexOf_def find_first_present)

lemma parse_headers_split:
  assumes "K \<noteq> []" and "CHR '':'' \<notin> set K"
  shows "parse_headers ((K @ '':'' @ V) # rest) headers =
           parse_headers rest (headers(toLower (trimmed K) \<mapsto> trimmed V))"
  using assms by (simp add: indexOf_present left_def mid_def Let_def nat_add_distrib)

lemma parse_headers_skip:
  assumes "l \<noteq> []" and "\<not> 0 < indexOf l '':''"
  shows "parse_headers (l # rest) headers = parse_headers rest headers"
  using assms by (simp add: Let_def)

lemma parse_headers_stop:
  "[] \<notin> set pre \<Longrightarrow> parse_headers (pre @ [] # post) headers = parse_headers pre headers"
  by (induction pre arbitrary: headers) (auto simp: Let_def)

lemma parse_headers_keep:
  assumes "\<forall>l \<in> set (takeWhile (\<lambda>l. l \<noteq> []) ls).
             0 < indexOf l '':'' \<longrightarrow> toLower (trimmed (left l (indexOf l '':''))) \<noteq> k"
  shows "parse_headers ls headers k = headers k"
  using assms by (induction ls arbitrary: headers) (auto simp: Let_def)

lemma parse_headers_append:
  "[] \<notin> set pre \<Longrightarrow> \<exists>headers'. parse_headers (pre @ ls) headers = parse_headers ls headers'"
  by (induction pre arbitrary: headers) (auto simp: Let_def)


section \<open>Starting and resuming\<close>

text \<open>
  C1. A request for \<open>start\<close> or \<open>record/start\<close>, whatever the recording page answers:
  when it is paused, the page gets \<open>OnRecordStartPause\<close> (resume) and the reply is the
  success envelope with action \<open>resumed\<close>; when it is neither paused nor recording, the page
  gets \<open>OnRecordStart\<close> and the reply is the success envelope with action \<open>started\<close>;
  otherwise the reply is the error envelope \<open>Already recording\<close> and the page gets no
  command. The three cases exclude one another, so each happens exactly under its
  condition.
\<close>

theorem StartOrResume:
  assumes "isOpen sock" and "3 \<le> length (request_line request)"
    and "normalized_path request = ''start'' \<or> normalized_path request = ''record/start''"
  shows "HandleRequest qt (Some p) (Some sock) request =
     (if IsPaused p then
        (Some (p\<lparr>invoked := invoked p @ [OnRecordStartPause]\<rparr>),
         Some (SendJsonResponse qt sock 200
                 [(''success'', Bool True), (''data'', Object [(''action'', String ''resumed'')])]))
      else if \<not> IsRecording p then
        (Some (p\<lparr>invoked := invoked p @ [OnRecordStart]\<rparr>),
         Some (SendJsonResponse qt sock 200
                 [(''success'', Bool True), (''data'', Object [(''action'', String ''started'')])]))
      else
        (Some p,
         Some (SendJsonResponse qt sock 200
                 [(''success'', Bool False), (''error'', String ''Already recording'')])))"
  using assms(3)
  by (simp add: HandleRequest_parsed[OF assms(1,2)] dispatch_def HandleAPIStartRecording_def
      invoke_def CreateSuccessResponse_def CreateErrorResponse_def set_member_def)

theorem StartOrResume_witness:
  "HandleRequest plain_json (Some idle_page) (Some fresh_socket) start_request =
     (Some (idle_page\<lparr>invoked := [OnRecordStart]\<rparr>),
      Some (SendJsonResponse plain_json fresh_socket 200
              [(''success'', Bool True), (''data'', Object [(''action'', String ''started'')])]))
   \<and> HandleRequest plain_json (Some paused_page) (Some fresh_socket) start_request =
     (Some (paused_page\<lparr>invoked := [OnRecordStartPause]\<rparr>),
      Some (SendJsonResponse plain_json fresh_socket 200
              [(''success'', Bool True), (''data'', Object [(''action'', String ''resumed'')])]))
   \<and> HandleRequest plain_json (Some recording_page) (Some fresh_socket) start_request =
     (Some recording_page,
      Some (SendJsonResponse plain_json fresh_socket 200
              [(''success'', Bool False), (''error'', String ''Already recording'')]))"
  using StartOrResume[of fresh_socket start_request plain_json idle_page]
    StartOrResume[of fresh_socket start_request plain_json paused_page]
    StartOrResume[of fresh_socket start_request plain_json recording_page]
  by (simp add: example_requests fresh_socket_def idle_page_def paused_page_def
      recording_page_def)


section \<open>Pausing, saving and cancelling\<close>

text \<open>
  C2. Whatever the recording page answers: a Pause request invokes \<open>OnRecordPause\<close> exactly
  when the page is recording and not paused, and otherwise replies with the error envelope
  \<open>Not recording or already paused\<close> and invokes nothing; a Save request invokes
  \<open>OnRecordSave(false)\<close> exactly when the page is recording, and otherwise replies
  \<open>Not recording\<close>; a Cancel request invokes \<open>OnRecordCancel(false)\<close> exactly when the page
  is recording, and otherwise replies \<open>Not recording\<close>. Every one of these replies is sent
  with status 200 (its status line is \<open>HTTP/1.1 200 OK\<close>), success or error. The requests
  are those for the short path, the \<open>record/\<close> path and the legacy \<open>api/record/\<close> path.
\<close>

theorem Pause_Save_Cancel:
  assumes "isOpen sock" and "3 \<le> length (request_line request)"
  shows "(normalized_path request \<in> {''pause'', ''record/pause'', ''api/record/pause''} \<longrightarrow>
          HandleRequest qt (Some p) (Some sock) request =
            (if IsRecording p \<and> \<not> IsPaused p then
               (Some (p\<lparr>invoked := invoked p @ [OnRecordPause]\<rparr>),
                Some (SendJsonResponse qt sock 200 [(''success'', Bool True), (''data'', Object [])]))
             else
               (Some p,
                Some (SendJsonResponse qt sock 200
                        [(''success'', Bool False),
                         (''error'', String ''Not recording or already paused'')]))))
       \<and> (normalized_path request \<in> {''save'', ''record/save'', ''api/record/save''} \<longrightarrow>
          HandleRequest qt (Some p) (Some sock) request =
            (if IsRecording p then
               (Some (p\<lparr>invoked := invoked p @ [OnRecordSave False]\<rparr>),
                Some (SendJsonResponse qt sock 200 [(''success'', Bool True), (''data'', Object [])]))
             else
               (Some p,
                Some (SendJsonResponse qt sock 200
                        [(''success'', Bool False), (''error'', String ''Not recording'')]))))
       \<and> (normalized_path request \<in> {''cancel'', ''record/cancel'', ''api/record/cancel''} \<longrightarrow>
          HandleRequest qt (Some p) (Some sock) request =
            (if IsRecording p then
               (Some (p\<lparr>invoked := invoked p @ [OnRecordCancel False]\<rparr>),
                Some (SendJsonResponse qt sock 200 [(''success'', Bool True), (''data'', Object [])]))
             else
               (Some p,
                Some (SendJsonResponse qt sock 200
                        [(''success'', Bool False), (''error'', String ''Not recording'')]))))
       \<and> (\<forall>json. \<exists>rest. written (SendJsonResponse qt sock 200 json) =
                            written sock @ [''HTTP/1.1 200 OK'' @ CRLF @ rest])"
proof -
  note parsed = HandleRequest_parsed[OF assms]
  have pause: "HandleRequest qt (Some p) (Some sock) request =
            (if IsRecording p \<and> \<not> IsPaused p then
               (Some (p\<lparr>invoked := invoked p @ [OnRecordPause]\<rparr>),
                Some (SendJsonResponse qt sock 200 [(''success'', Bool True), (''data'', Object [])]))
             else
               (Some p,
                Some (SendJsonResponse qt sock 200
                        [(''success'', Bool False),
                         (''error'', String ''Not recording or already paused'')])))"
    if "normalized_path request \<in> {''pause'', ''record/pause'', ''api/record/pause''}"
    by (simp add: parsed dispatch_pause[OF that] HandleAPIPauseRecording_def invoke_def
        success_envelope error_envelope)
  have save: "HandleRequest qt (Some p) (Some sock) request =
            (if IsRecording p then
               (Some (p\<lparr>invoked := invoked p @ [OnRecordSave False]\<rparr>),
                Some (SendJsonResponse qt sock 200 [(''success'', Bool True), (''data'', Object [])]))
             else
               (Some p,
                Some (SendJsonResponse qt sock 200
                        [(''success'', Bool False), (''error'', String ''Not recording'')])))"
    if "normalized_path request \<in> {''save'', ''record/save'', ''api/record/save''}"
    by (simp add: parsed dispatch_save[OF that] HandleAPISaveRecording_def invoke_def
        success_envelope error_envelope)
  have cancel: "HandleRequest qt (Some p) (Some sock) request =
            (if IsRecording p then
               (Some (p\<lparr>invoked := invoked p @ [OnRecordCancel False]\<rparr>),
                Some (SendJsonResponse qt sock 200 [(''success'', Bool True), (''data'', Object [])]))
             else
               (Some p,
                Some (SendJsonResponse qt sock 200
                        [(''success'', Bool False), (''error'', String ''Not recording'')])))"
    if "normalized_path request \<in> {''cancel'', ''record/cancel'', ''api/record/cancel''}"
    by (simp add: parsed dispatch_cancel[OF that] HandleAPICancelRecording_def invoke_def
        success_envelope error_envelope)
  have status: "\<forall>json. \<exists>rest. written (SendJsonResponse qt sock 200 json) =
                            written sock @ [''HTTP/1.1 200 OK'' @ CRLF @ rest]"
    by (simp add: SendJsonResponse_def SendResponse_def toUtf8_def QString_number_status
        statusText_def Let_def)
  from pause save cancel status show ?thesis by blast
qed

theorem Pause_Save_Cancel_witness:
  "HandleRequest plain_json (Some idle_page) (Some fresh_socket) pause_request
     = (Some idle_page,
        Some (SendJsonResponse plain_json fresh_socket 200
                [(''success'', Bool False), (''error'', String ''Not recording or already paused'')]))
   \<and> HandleRequest plain_json (Some recording_page) (Some fresh_socket) save_request
     = (Some (recording_page\<lparr>invoked := [OnRecordSave False]\<rparr>),
        Some (SendJsonResponse plain_json fresh_socket 200
                [(''success'', Bool True), (''data'', Object [])]))
   \<and> HandleRequest plain_json (Some recording_page) (Some fresh_socket) cancel_request
     = (Some (recording_page\<lparr>invoked := [OnRecordCancel False]\<rparr>),
        Some (SendJsonResponse plain_json fresh_socket 200
                [(''success'', Bool True), (''data'', Object [])]))"
  using Pause_Save_Cancel[of fresh_socket pause_request plain_json idle_page]
    Pause_Save_Cancel[of fresh_socket save_request plain_json recording_page]
    Pause_Save_Cancel[of fresh_socket cancel_request plain_json recording_page]
  by (simp add: example_requests fresh_socket_def idle_page_def recording_page_def)


section \<open>Status\<close>

text \<open>
  C3. A request for \<open>status\<close>, \<open>record/status\<close>, \<open>api/status\<close> or \<open>api/record/status\<close>,
  whatever the recording page answers, is replied to with the success envelope (its
  \<open>success\<close> member is \<open>true\<close>) whose \<open>data\<close> object has exactly the members
  \<open>is_recording\<close> and \<open>is_paused\<close> (the two flags), \<open>file_name\<close> (the file name as a string),
  \<open>file_size\<close> (the file size as a string of decimal digits: read back as a decimal numeral
  it is the size) and \<open>total_time\<close> (the time as a number); the page gets no command.
\<close>

theorem Status:
  assumes "isOpen sock" and "3 \<le> length (request_line request)"
    and "normalized_path request
           \<in> {''status'', ''record/status'', ''api/status'', ''api/record/status''}"
  shows "HandleRequest qt (Some p) (Some sock) request =
           (Some p,
            Some (SendJsonResponse qt sock 200
                    [(''success'', Bool True),
                     (''data'', Object
                        [(''is_recording'', Bool (IsRecording p)),
                         (''is_paused'', Bool (IsPaused p)),
                         (''file_name'', String (GetCurrentFileName p)),
                         (''file_size'', String (QString_number (uint (GetCurrentFileSize p)))),
                         (''total_time'', Number (GetTotalTime p))])]))
         \<and> digits_value (QString_number (uint (GetCurrentFileSize p))) 0
             = unat (GetCurrentFileSize p)"
  by (simp add: HandleRequest_parsed[OF assms(1,2)] dispatch_status[OF assms(3)]
      HandleAPIStatus_def success_envelope set_member_def QString_number_uint)

theorem Status_witness:
  "HandleRequest plain_json (Some recording_page) (Some fresh_socket) status_request =
     (Some recording_page,
      Some (SendJsonResponse plain_json fresh_socket 200
              [(''success'', Bool True),
               (''data'', Object
                  [(''is_recording'', Bool True),
                   (''is_paused'', Bool False),
                   (''file_name'', String ''out.mkv''),
                   (''file_size'', String ''1048576''),
                   (''total_time'', Number 12345)])]))"
  using Status[of fresh_socket status_request plain_json recording_page]
  by (simp add: example_requests fresh_socket_def recording_page_def QString_number_def
      number_digits.simps)


section \<open>Stopping the server\<close>

text \<open>
  C4, as the claim puts it, fails: \<open>Stop\<close> only closes the \<open>QTcpServer\<close>. Take the server
  that was constructed, started, and has accepted one connection (socket 7): it listens,
  and the connection's entry is still in \<open>m_request_buffers\<close> when \<open>Stop\<close> has returned.
\<close>

theorem Stop_counterexample:
  "HTTPServer_new (Some idle_page) = Inr stopped_server
   \<and> client_connects 7 (snd (Start (\<lambda>port. True) stopped_server 8080)) = connected_server
   \<and> isListening (m_server connected_server)
   \<and> m_request_buffers (Stop connected_server) 7 = Some []
   \<and> m_request_buffers (Stop connected_server) \<noteq> Map.empty"
proof -
  have "m_request_buffers (Stop connected_server) 7 = Some []"
    by (simp add: connected_server_def Stop_def QTcpServer_close_def)
  moreover from this have "m_request_buffers (Stop connected_server) \<noteq> Map.empty"
    by auto
  moreover have "isListening (m_server connected_server)"
    by (simp add: connected_server_def)
  ultimately show ?thesis
    using connected_server_reachable by simp
qed

text \<open>
  C4, amended. After \<open>Stop\<close> the server does not listen, and the table of connections
  and the recording page are what they were before: \<open>Stop\<close> closes the listening socket and
  releases no connection. On a server that is not listening, \<open>Stop\<close> changes nothing.
\<close>

theorem Stop_closes_listener:
  "\<not> isListening (m_server (Stop this))
   \<and> m_request_buffers (Stop this) = m_request_buffers this
   \<and> m_page_record (Stop this) = m_page_record this
   \<and> (\<not> isListening (m_server this) \<longrightarrow> Stop this = this)"
  by (simp add: Stop_def QTcpServer_close_def)

theorem Stop_closes_listener_witness:
  "Stop stopped_server = stopped_server
   \<and> \<not> isListening (m_server (Stop connected_server))
   \<and> m_request_buffers (Stop connected_server) = [7 \<mapsto> []]"
  using Stop_closes_listener[of stopped_server] Stop_closes_listener[of connected_server]
  by (simp add: stopped_server_def connected_server_def)


section \<open>Unknown paths\<close>

text \<open>
  C5. A parsed request whose normalized path is none of the fifteen paths of the dispatch
  table and does not start with \<open>api/\<close> gets one response, with status 404 and the body
  \<open>Not Found\<close>, and the recording page gets no command.
\<close>

theorem NotFound:
  assumes "isOpen sock" and "3 \<le> length (request_line request)"
    and "normalized_path request
           \<notin> {[], ''index'', ''index.html'', ''start'', ''record/start'', ''pause'',
               ''record/pause'', ''save'', ''record/save'', ''cancel'', ''record/cancel'',
               ''status'', ''record/status'', ''api/status'', ''api/record/status''}"
    and "\<not> startsWith (normalized_path request) ''api/''"
  shows "HandleRequest qt page (Some sock) request =
           (page,
            Some (sock\<lparr>written := written sock @
                          [''HTTP/1.1 404 Not Found'' @ CRLF
                           @ ''Content-Type: text/plain'' @ CRLF
                           @ ''Content-Length: 9'' @ CRLF
                           @ ''Connection: close'' @ CRLF
                           @ ''Access-Control-Allow-Origin: *'' @ CRLF
                           @ CRLF
                           @ ''Not Found''],
                       isOpen := False\<rparr>))"
  using assms(3,4)
  by (simp add: HandleRequest_parsed[OF assms(1,2)] dispatch_def SendResponse_def toUtf8_def
      QString_number_status statusText_def QString_fromUtf8_def)

theorem NotFound_witness:
  "HandleRequest plain_json (Some recording_page) (Some fresh_socket) favicon_request =
           (Some recording_page,
            Some \<lparr>isOpen = False,
                  written = [''HTTP/1.1 404 Not Found'' @ CRLF
                           @ ''Content-Type: text/plain'' @ CRLF
                           @ ''Content-Length: 9'' @ CRLF
                           @ ''Connection: close'' @ CRLF
                           @ ''Access-Control-Allow-Origin: *'' @ CRLF
                           @ CRLF
                           @ ''Not Found'']\<rparr>)"
  using NotFound[of fresh_socket favicon_request plain_json "Some recording_page"]
  by (simp add: example_requests fresh_socket_def startsWith_def)


section \<open>Malformed request lines\<close>

text \<open>
  C6. When the first line of the request buffer (the bytes before its first CRLF) splits
  on single spaces into fewer than three tokens, the request gets exactly one response,
  with status 400 and the body \<open>Bad Request\<close>; nothing is dispatched and the recording
  page gets no command. The socket is the open socket the request was read from.
\<close>

theorem BadRequest:
  assumes "isOpen sock"
    and "length (QString_split '' '' (QString_split CRLF request ! 0)) < 3"
  shows "HandleRequest qt page (Some sock) request =
           (page,
            Some (sock\<lparr>written := written sock @
                          [''HTTP/1.1 400 Bad Request'' @ CRLF
                           @ ''Content-Type: text/plain'' @ CRLF
                           @ ''Content-Length: 11'' @ CRLF
                           @ ''Connection: close'' @ CRLF
                           @ ''Access-Control-Allow-Origin: *'' @ CRLF
                           @ CRLF
                           @ ''Bad Request''],
                       isOpen := False\<rparr>))"
proof -
  have "length (request_line request) < 3"
    using request_line_tokens[of request] assms(2) by simp
  then have "length (QString_split '' '' (QString_split CRLF (QString_fromUtf8 request) ! 0)) < 3"
    by (simp add: request_line_def)
  with assms(1) show ?thesis
    by (simp add: HandleRequest_def Let_def SendResponse_def toUtf8_def
      QString_number_status statusText_def QString_fromUtf8_def)
qed

theorem BadRequest_witness:
  "HandleRequest plain_json (Some recording_page) (Some fresh_socket) garbage_request =
           (Some recording_page,
            Some \<lparr>isOpen = False,
                  written = [''HTTP/1.1 400 Bad Request'' @ CRLF
                           @ ''Content-Type: text/plain'' @ CRLF
                           @ ''Content-Length: 11'' @ CRLF
                           @ ''Connection: close'' @ CRLF
                           @ ''Access-Control-Allow-Origin: *'' @ CRLF
                           @ CRLF
                           @ ''Bad Request'']\<rparr>)"
  using BadRequest[of fresh_socket garbage_request plain_json "Some recording_page"]
  by (simp add: fresh_socket_def garbage_request_def CRLF_def)


section \<open>The legacy route\<close>

text \<open>
  C7. A parsed request whose normalized path is \<open>api/\<close> followed by a suffix, and is none
  of the paths of the dispatch table, is answered by the handler that the suffix names
  among \<open>status\<close>, \<open>record/start\<close>, \<open>record/pause\<close>, \<open>record/cancel\<close> and \<open>record/save\<close>;
  for every other suffix the reply is the error envelope \<open>Unknown API endpoint\<close> and the
  recording page gets no command. In each case the response has status 200 and content
  type \<open>application/json\<close>.
\<close>

theorem LegacyAPI:
  assumes "isOpen sock" and "3 \<le> length (request_line request)"
    and "normalized_path request = ''api/'' @ apiPath"
    and "normalized_path request
           \<notin> {[], ''index'', ''index.html'', ''start'', ''record/start'', ''pause'',
               ''record/pause'', ''save'', ''record/save'', ''cancel'', ''record/cancel'',
               ''status'', ''record/status'', ''api/status'', ''api/record/status''}"
  shows "HandleRequest qt page (Some sock) request =
           (let (response, page') =
                  (if apiPath = ''status'' then HandleAPIStatus page
                   else if apiPath = ''record/start'' then HandleAPIStartRecording page
                   else if apiPath = ''record/pause'' then HandleAPIPauseRecording page
                   else if apiPath = ''record/cancel'' then HandleAPICancelRecording page
                   else if apiPath = ''record/save'' then HandleAPISaveRecording page
                   else ([(''success'', Bool False), (''error'', String ''Unknown API endpoint'')],
                         page))
            in (page', Some (SendResponse sock 200 ''application/json'' (toJson qt response))))"
  using assms(4) unfolding assms(3)
  by (simp add: HandleRequest_parsed[OF assms(1,2)] assms(3) dispatch_def HandleAPI_def
      startsWith_def mid_def error_envelope SendJsonResponse_def split: prod.splits)

theorem LegacyAPI_witness:
  "HandleRequest plain_json (Some recording_page) (Some fresh_socket) legacy_request =
     (Some recording_page,
      Some (SendResponse fresh_socket 200 ''application/json'' ''successerror''))"
  using LegacyAPI[of fresh_socket legacy_request "''record/stop''" plain_json "Some recording_page"]
  by (simp add: example_requests fresh_socket_def plain_json_def)


section \<open>The response writer\<close>

text \<open>
  C8. For every status code, content type and body, \<open>SendResponse\<close> writes one block:
  five header lines, each ended by CRLF, then an empty line, then the body. The first
  line is \<open>HTTP/1.1\<close>, the status code and its phrase: \<open>OK\<close> for 200, \<open>Bad Request\<close> for
  400, \<open>Not Found\<close> for 404, \<open>Internal Server Error\<close> for 500 and \<open>Unknown\<close> for every
  other code. Among the lines are \<open>Connection: close\<close>, \<open>Access-Control-Allow-Origin: *\<close>
  and \<open>Content-Length\<close> with the decimal numeral of the number of bytes of the body
  (reading the numeral back gives that number).
\<close>

theorem SendResponse_format:
  "SendResponse socket status content_type content =
     socket\<lparr>written := written socket @
               [concat (map (\<lambda>header. header @ CRLF)
                  [''HTTP/1.1 '' @ QString_number status @ '' ''
                     @ (if status = 200 then ''OK''
                        else if status = 400 then ''Bad Request''
                        else if status = 404 then ''Not Found''
                        else if status = 500 then ''Internal Server Error''
                        else ''Unknown''),
                   ''Content-Type: '' @ QString_fromUtf8 content_type,
                   ''Content-Length: '' @ QString_number (int (length content)),
                   ''Connection: close'',
                   ''Access-Control-Allow-Origin: *''])
                @ CRLF @ content],
             isOpen := False\<rparr>
   \<and> digits_value (QString_number (int (length content))) 0 = length content"
  by (simp add: SendResponse_def toUtf8_def statusText_def QString_number_def
      digits_value_number_digits)

theorem SendResponse_format_witness:
  "SendResponse fresh_socket 503 ''text/plain'' ''busy'' =
     \<lparr>isOpen = False,
      written = [''HTTP/1.1 503 Unknown'' @ CRLF
                 @ ''Content-Type: text/plain'' @ CRLF
                 @ ''Content-Length: 4'' @ CRLF
                 @ ''Connection: close'' @ CRLF
                 @ ''Access-Control-Allow-Origin: *'' @ CRLF
                 @ CRLF
                 @ ''busy'']\<rparr>"
  using SendResponse_format[of fresh_socket 503 "''text/plain''" "''busy''"]
  by (simp add: fresh_socket_def QString_number_def number_digits.simps QString_fromUtf8_def)


section \<open>Header lines\<close>

text \<open>
  C9, as the claim puts it, fails in two ways on the header lines \<open>A: 1\<close>, \<open>:x\<close>, \<open>a: 2\<close>:
  looking up \<open>a\<close>, the lower-cased name of the line \<open>A: 1\<close>, yields \<open>2\<close> and not \<open>1\<close> (a
  later line with the same name replaces the entry), and the line \<open>:x\<close>, whose name is
  empty, leaves no entry under the empty name.
\<close>

theorem header_lookup_counterexample:
  "parse_headers [''A: 1'', '':x'', ''a: 2'', []] Map.empty (toLower (trimmed ''A'')) = Some ''2''
   \<and> parse_headers [''A: 1'', '':x'', ''a: 2'', []] Map.empty (toLower (trimmed ''A''))
        \<noteq> Some (trimmed '' 1'')
   \<and> parse_headers [''A: 1'', '':x'', ''a: 2'', []] Map.empty (toLower (trimmed []))
        \<noteq> Some (trimmed ''x'')"
  by (simp add: indexOf_def left_def mid_def trimmed_def toLower_def toLower_char_def isSpace_def)

text \<open>
  C9, amended. Take a header line \<open>K:V\<close> among the lines between the request line and the
  first empty line, with a non-empty name \<open>K\<close> that has no colon in it, such that no later
  header line before the first empty line has the same lower-cased, trimmed name. Then
  the header map at \<open>toLower (trimmed K)\<close> is \<open>trimmed V\<close>. A non-empty line without a colon
  adds no entry, and the lines from the first empty line on are not read.
\<close>

theorem header_lookup:
  assumes "[] \<notin> set pre" and "K \<noteq> []" and "CHR '':'' \<notin> set K"
    and "\<forall>l \<in> set (takeWhile (\<lambda>l. l \<noteq> []) post).
           0 < indexOf l '':''
             \<longrightarrow> toLower (trimmed (left l (indexOf l '':''))) \<noteq> toLower (trimmed K)"
  shows "parse_headers (pre @ (K @ '':'' @ V) # post) Map.empty (toLower (trimmed K))
           = Some (trimmed V)
         \<and> (\<forall>l rest headers. l \<noteq> [] \<and> CHR '':'' \<notin> set l
               \<longrightarrow> parse_headers (l # rest) headers = parse_headers rest headers)
         \<and> (\<forall>rest headers. parse_headers (pre @ [] # rest) headers = parse_headers pre headers)"
proof (intro conjI allI impI)
  obtain headers' where
    "parse_headers (pre @ (K @ '':'' @ V) # post) Map.empty
       = parse_headers ((K @ '':'' @ V) # post) headers'"
    using parse_headers_append[OF assms(1)] by blast
  then have "parse_headers (pre @ (K @ '':'' @ V) # post) Map.empty
       = parse_headers post (headers'(toLower (trimmed K) \<mapsto> trimmed V))"
    by (simp only: parse_headers_split[OF assms(2,3)])
  then show "parse_headers (pre @ (K @ '':'' @ V) # post) Map.empty (toLower (trimmed K))
           = Some (trimmed V)"
    by (simp add: parse_headers_keep[OF assms(4)])
next
  fix l rest headers
  assume "l \<noteq> [] \<and> CHR '':'' \<notin> set l"
  then show "parse_headers (l # rest) headers = parse_headers rest headers"
    by (simp add: parse_headers_skip indexOf_absent)
next
  fix rest headers
  show "parse_headers (pre @ [] # rest) headers = parse_headers pre headers"
    by (rule parse_headers_stop[OF assms(1)])
qed

theorem header_lookup_witness:
  "parse_headers ([''Host: localhost''] @ (''Content-Type'' @ '':'' @ '' application/json'')
                    # [''content-length: 2'', [], ''content-type: ignored''])
     Map.empty ''content-type'' = Some ''application/json''"
  using header_lookup[of "[''Host: localhost'']" "''Content-Type''"
      "[''content-length: 2'', [], ''content-type: ignored'']" "'' application/json''"]
  by (simp add: indexOf_def left_def trimmed_def toLower_def toLower_char_def isSpace_def)


section \<open>Header lines with an empty name\<close>

text \<open>
  C10. A header line that starts with a colon adds no entry to the header map, although
  it contains a colon; more generally a line adds no entry unless its first colon is at
  position 1 or later, and a line whose first colon is at position 1 or later is split
  into the name before that colon and the value behind it.
\<close>

theorem empty_name_no_entry:
  "parse_headers ((CHR '':'' # v) # rest) headers = parse_headers rest headers
   \<and> (\<forall>l. l \<noteq> [] \<and> \<not> 0 < indexOf l '':''
          \<longrightarrow> parse_headers (l # rest) headers = parse_headers rest headers)
   \<and> (\<forall>K V. K \<noteq> [] \<and> CHR '':'' \<notin> set K
          \<longrightarrow> parse_headers ((K @ '':'' @ V) # rest) headers
                = parse_headers rest (headers(toLower (trimmed K) \<mapsto> trimmed V)))"
proof (intro conjI allI impI)
  have "indexOf (CHR '':'' # v) '':'' = 0"
    by (simp add: indexOf_def)
  then show "parse_headers ((CHR '':'' # v) # rest) headers = parse_headers rest headers"
    by (simp add: parse_headers_skip)
next
  fix l :: QString
  assume "l \<noteq> [] \<and> \<not> 0 < indexOf l '':''"
  then show "parse_headers (l # rest) headers = parse_headers rest headers"
    by (simp add: parse_headers_skip)
next
  fix K V :: QString
  assume "K \<noteq> [] \<and> CHR '':'' \<notin> set K"
  then have "K \<noteq> []" and "CHR '':'' \<notin> set K"
    by simp_all
  then show "parse_headers ((K @ '':'' @ V) # rest) headers
                = parse_headers rest (headers(toLower (trimmed K) \<mapsto> trimmed V))"
    by (rule parse_headers_split)
qed

theorem empty_name_no_entry_witness:
  "parse_headers ['':value''] Map.empty = Map.empty
   \<and> parse_headers [''no colon here''] Map.empty = Map.empty
   \<and> parse_headers [''X:value''] Map.empty = [''x'' \<mapsto> ''value'']"
  using empty_name_no_entry[of "''value''" "[]" Map.empty]
  by (simp add: indexOf_def left_def mid_def trimmed_def toLower_def toLower_char_def isSpace_def)


end
